theory Spec2Isabelle
  imports Main
begin

section \<open>Data model of \<^verbatim>\<open>repo.go\<close>\<close>

text \<open>
  \<^verbatim>\<open>time.Duration\<close> is a signed 64-bit count of nanoseconds. The operations below only
  compare it with zero and hand it on, they never compute with it, so it is read as an
  integer.
\<close>

type_synonym Duration = int

text \<open>
  A Go \<^verbatim>\<open>error\<close> value: the one this file makes itself with \<^verbatim>\<open>errors.New\<close>, or
  one that comes back from the operating system, the subprocess runner or the commit
  lookup. \<^verbatim>\<open>nil\<close> is \<open>None\<close> of \<open>error option\<close>.
\<close>

datatype error = errors_New string | OtherError string

text \<open>
  Modelled from the spec: the command builder (\<^verbatim>\<open>NewCommand\<close>, \<^verbatim>\<open>AddArguments\<close>) is
  not part of \<^verbatim>\<open>repo.go\<close>. The spec (4.1) describes it as taking a subcommand name and a
  variadic list of arguments, with incremental appending and arguments passed through
  verbatim.
\<close>

record Command =
  cmd_args :: "string list"

definition NewCommand :: "string list \<Rightarrow> Command" where
  "NewCommand as = \<lparr>cmd_args = as\<rparr>"

definition AddArguments :: "Command \<Rightarrow> string list \<Rightarrow> Command" where
  "AddArguments c as = c\<lparr>cmd_args := cmd_args c @ as\<rparr>"

text \<open>
  The three runner methods \<^verbatim>\<open>repo.go\<close> calls on a command, each with the arguments it
  is given: \<^verbatim>\<open>c.RunInDir(dir)\<close>, \<^verbatim>\<open>c.RunTimeout(timeout)\<close> and
  \<^verbatim>\<open>c.RunInDirTimeout(timeout, dir)\<close>.
\<close>

datatype run_call =
    Call_RunInDir Command string
  | Call_RunTimeout Command Duration
  | Call_RunInDirTimeout Command Duration string

text \<open>
  What lies outside \<^verbatim>\<open>repo.go\<close> is a parameter: the file system calls of the Go
  library, the helper \<^verbatim>\<open>isDir\<close> and the subprocess runner, all acting on a world
  \<open>'w\<close> that the model does not look into. A call that returns \<^verbatim>\<open>(value, error)\<close>
  returns a pair here.
\<close>

record 'w env =
  os_MkdirAll :: "string \<Rightarrow> nat \<Rightarrow> 'w \<Rightarrow> error option \<times> 'w"
  filepath_Abs :: "string \<Rightarrow> 'w \<Rightarrow> string \<times> error option"
  path_Dir :: "string \<Rightarrow> string"
  isDir :: "string \<Rightarrow> 'w \<Rightarrow> bool"
  run :: "run_call \<Rightarrow> 'w \<Rightarrow> (string \<times> error option) \<times> 'w"

definition os_ModePerm :: nat where
  "os_ModePerm = 511"

text \<open>
  \<^verbatim>\<open>filepath.IsAbs\<close> of the Go library on Unix: the path begins with a slash.
\<close>

definition filepath_IsAbs :: "string \<Rightarrow> bool" where
  "filepath_IsAbs p = (take 1 p = ''/'')"

text \<open>
  The effects a caller can observe are kept in order in \<open>events\<close>: each directory
  creation and each subprocess invocation appends one entry.
\<close>

datatype event = MkdirAll_event string nat | Run_event run_call

record 'w state =
  world :: 'w
  events :: "event list"

definition MkdirAll :: "'w env \<Rightarrow> string \<Rightarrow> nat \<Rightarrow> 'w state \<Rightarrow> error option \<times> 'w state" where
  "MkdirAll env p perm st =
     (case os_MkdirAll env p perm (world st) of
        (err, w') \<Rightarrow> (err, \<lparr>world = w', events = events st @ [MkdirAll_event p perm]\<rparr>))"

definition exec :: "'w env \<Rightarrow> run_call \<Rightarrow> 'w state \<Rightarrow> (string \<times> error option) \<times> 'w state" where
  "exec env c st =
     (case run env c (world st) of
        (res, w') \<Rightarrow> (res, \<lparr>world = w', events = events st @ [Run_event c]\<rparr>))"

definition RunInDir :: "'w env \<Rightarrow> Command \<Rightarrow> string \<Rightarrow> 'w state \<Rightarrow> (string \<times> error option) \<times> 'w state" where
  "RunInDir env c dir = exec env (Call_RunInDir c dir)"

definition RunTimeout :: "'w env \<Rightarrow> Command \<Rightarrow> Duration \<Rightarrow> 'w state \<Rightarrow> (string \<times> error option) \<times> 'w state" where
  "RunTimeout env c timeout = exec env (Call_RunTimeout c timeout)"


subsection \<open>Repository\<close>

text \<open>
  Modelled from the spec: \<^verbatim>\<open>objectCache\<close> and \<^verbatim>\<open>newObjectCache\<close> are not part of
  \<^verbatim>\<open>repo.go\<close>. The spec (3, 4.3) describes a cache as a mapping from string key to a
  previously computed object, empty at creation.
\<close>

type_synonym 'o objectCache = "string \<rightharpoonup> 'o"

definition newObjectCache :: "'o objectCache" where
  "newObjectCache = Map.empty"

record ('c, 't) Repository =
  Path :: string
  commitCache :: "'c objectCache"
  tagCache :: "'t objectCache"

section \<open>Log parsing\<close>

text \<open>
  \<^verbatim>\<open>bytes.Split(s, sep)\<close> of the Go library for a separator of one byte, which is how
  \<^verbatim>\<open>parsePrettyFormatLogToList\<close> calls it: \<open>s\<close> is cut at every separator, and the
  pieces between the separators are returned in order, one more than there are
  separators. \<open>split_from\<close> scans the bytes; \<open>piece\<close> holds the bytes read since the
  last separator.
\<close>

fun split_from :: "string \<Rightarrow> char \<Rightarrow> string \<Rightarrow> string list" where
  "split_from [] sep piece = [piece]"
| "split_from (b # bs) sep piece =
     (if b = sep then piece # split_from bs sep []
      else split_from bs sep (piece @ [b]))"

definition bytes_Split :: "string \<Rightarrow> char \<Rightarrow> string list" where
  "bytes_Split s sep = split_from s sep []"

text \<open>
  \<^verbatim>\<open>bytes.Join(pieces, sep)\<close> of the Go library, again for a separator of one byte:
  the pieces with the separator between them. It is the inverse of the split and is
  used only to say so.
\<close>

fun bytes_Join :: "string list \<Rightarrow> char \<Rightarrow> string" where
  "bytes_Join [] sep = []"
| "bytes_Join [p] sep = p"
| "bytes_Join (p # q # ps) sep = p @ sep # bytes_Join (q # ps) sep"

definition newline :: char where
  "newline = CHR 0x0A"

text \<open>
  \<^verbatim>\<open>repo.GetCommit\<close> is not part of \<^verbatim>\<open>repo.go\<close>; the parser takes it as the parameter
  \<open>getCommit\<close>. It acts on a store \<open>'s\<close> (the repository handle with its caches, and
  the world) and returns the pair \<^verbatim>\<open>(commit, err)\<close>. The loop of the parser is
  \<open>parse_loop\<close>: \<open>l\<close> is the list built so far, \<^verbatim>\<open>l.PushBack\<close> appends to it. A
  returned list pointer is \<open>Some\<close> of the list, \<^verbatim>\<open>nil\<close> is \<open>None\<close>.
\<close>

fun parse_loop ::
  "(string \<Rightarrow> 's \<Rightarrow> ('p \<times> error option) \<times> 's) \<Rightarrow> string list \<Rightarrow> 'p list \<Rightarrow> 's
     \<Rightarrow> ('p list option \<times> error option) \<times> 's" where
  "parse_loop getCommit [] l s = ((Some l, None), s)"
| "parse_loop getCommit (commitId # parts) l s =
     (case getCommit commitId s of
        ((commit, Some err), s') \<Rightarrow> ((None, Some err), s')
      | ((commit, None), s') \<Rightarrow> parse_loop getCommit parts (l @ [commit]) s')"

definition parsePrettyFormatLogToList ::
  "(string \<Rightarrow> 's \<Rightarrow> ('p \<times> error option) \<times> 's) \<Rightarrow> string \<Rightarrow> 's
     \<Rightarrow> ('p list option \<times> error option) \<times> 's" where
  "parsePrettyFormatLogToList getCommit logs s =
     (let l = [] in
      if length logs = 0 then ((Some l, None), s)
      else (let parts = bytes_Split logs newline in parse_loop getCommit parts l s))"

text \<open>
  An observer for the identifiers the parser asks for: \<open>recording getCommit\<close> behaves
  as \<open>getCommit\<close> and notes each identifier it is called with.
\<close>

definition recording ::
  "(string \<Rightarrow> 's \<Rightarrow> 'r \<times> 's) \<Rightarrow> string \<Rightarrow> 's \<times> string list \<Rightarrow> 'r \<times> ('s \<times> string list)" where
  "recording getCommit commitId sa =
     (case getCommit commitId (fst sa) of
        (r, s') \<Rightarrow> (r, (s', snd sa @ [commitId])))"

section \<open>Repository operations\<close>

definition InitRepository :: "'w env \<Rightarrow> string \<Rightarrow> bool \<Rightarrow> 'w state \<Rightarrow> error option \<times> 'w state" where
  "InitRepository env repoPath bare st =
     (case MkdirAll env repoPath os_ModePerm st of
        (ignored, st1) \<Rightarrow>
          (let cmd = NewCommand [''init''];
               cmd = (if bare then AddArguments cmd [''--bare''] else cmd)
           in case RunInDir env cmd repoPath st1 of
                ((out, err), st2) \<Rightarrow> (err, st2)))"

text \<open>
  \<^verbatim>\<open>OpenRepository\<close> only reads the world. It returns the pair
  \<^verbatim>\<open>(*Repository, error)\<close>: \<open>None\<close> in the first place is the \<^verbatim>\<open>nil\<close> handle.
\<close>

definition OpenRepository :: "'w env \<Rightarrow> string \<Rightarrow> 'w \<Rightarrow> ('c, 't) Repository option \<times> error option" where
  "OpenRepository env repoPath w =
     (case filepath_Abs env repoPath w of
        (absPath, Some err) \<Rightarrow> (None, Some err)
      | (absPath, None) \<Rightarrow>
          if \<not> isDir env absPath w
          then (None, Some (errors_New ''no such file or directory''))
          else (Some \<lparr>Path = absPath, commitCache = newObjectCache, tagCache = newObjectCache\<rparr>,
                None))"

record CloneRepoOptions =
  Clone_Mirror :: bool
  Clone_Bare :: bool
  Clone_Quiet :: bool
  Clone_Timeout :: Duration

definition Clone ::
  "'w env \<Rightarrow> string \<Rightarrow> string \<Rightarrow> CloneRepoOptions \<Rightarrow> 'w state \<Rightarrow> error option \<times> 'w state" where
  "Clone env fromPath toPath opts st =
     (let toDir = path_Dir env toPath in
      case MkdirAll env toDir os_ModePerm st of
        (Some err, st1) \<Rightarrow> (Some err, st1)
      | (None, st1) \<Rightarrow>
          (let cmd = NewCommand [''clone''];
               cmd = (if Clone_Mirror opts then AddArguments cmd [''--mirror''] else cmd);
               cmd = (if Clone_Bare opts then AddArguments cmd [''--bare''] else cmd);
               cmd = (if Clone_Quiet opts then AddArguments cmd [''--quiet''] else cmd);
               cmd = AddArguments cmd [fromPath, toPath];
               opts = (if Clone_Timeout opts \<le> 0 then opts\<lparr>Clone_Timeout := - 1\<rparr> else opts)
           in case RunTimeout env cmd (Clone_Timeout opts) st1 of
                ((out, err), st2) \<Rightarrow> (err, st2)))"





record PushOptions =
  Push_Force :: bool

definition Push ::
  "'w env \<Rightarrow> string \<Rightarrow> string \<Rightarrow> string \<Rightarrow> PushOptions \<Rightarrow> 'w state \<Rightarrow> error option \<times> 'w state" where
  "Push env repoPath remote branch opts st =
     (let cmd = NewCommand [''push''];
          cmd = (if Push_Force opts then AddArguments cmd [''--force''] else cmd);
          cmd = AddArguments cmd [remote];
          cmd = AddArguments cmd [branch]
      in case RunInDir env cmd repoPath st of
           ((out, err), st1) \<Rightarrow> (err, st1))"

definition ResetHEAD :: "'w env \<Rightarrow> string \<Rightarrow> bool \<Rightarrow> string \<Rightarrow> 'w state \<Rightarrow> error option \<times> 'w state" where
  "ResetHEAD env repoPath hard revision st =
     (let cmd = NewCommand [''reset''];
          cmd = (if hard then AddArguments cmd [''--hard''] else cmd)
      in case RunInDir env (AddArguments cmd [revision]) repoPath st of
           ((out, err), st1) \<Rightarrow> (err, st1))"

section \<open>Commit lookup through the cache\<close>

text \<open>
  Modelled from the spec: \<^verbatim>\<open>GetCommit\<close> is not part of \<^verbatim>\<open>repo.go\<close>. The spec (2, 4.3)
  describes the lookup as a memoization layer: a request first consults the handle's
  commit cache under the identifier; on a miss it constructs a command, runs one
  subprocess in the repository's directory, parses the output and stores the parsed
  object in the cache. Which command is run and how its output is parsed is left open
  (\<open>lookupCommand\<close>, \<open>parseCommit\<close>). A failed request stores nothing, since the cache
  holds computed objects only.
\<close>

definition GetCommit ::
  "'w env \<Rightarrow> (string \<Rightarrow> Command) \<Rightarrow> (string \<Rightarrow> string \<Rightarrow> 'c \<times> error option) \<Rightarrow> string
     \<Rightarrow> ('c, 't) Repository \<times> 'w state
     \<Rightarrow> ('c option \<times> error option) \<times> (('c, 't) Repository \<times> 'w state)" where
  "GetCommit env lookupCommand parseCommit commitId s =
     (case s of
        (repo, st) \<Rightarrow>
          (case commitCache repo commitId of
             Some c \<Rightarrow> ((Some c, None), (repo, st))
           | None \<Rightarrow>
               (case RunInDir env (lookupCommand commitId) (Path repo) st of
                  ((out, Some err), st1) \<Rightarrow> ((None, Some err), (repo, st1))
                | ((out, None), st1) \<Rightarrow>
                    (case parseCommit commitId out of
                       (c, Some err) \<Rightarrow> ((None, Some err), (repo, st1))
                     | (c, None) \<Rightarrow>
                         ((Some c, None),
                          (repo\<lparr>commitCache := (commitCache repo)(commitId \<mapsto> c)\<rparr>, st1))))))"

text \<open>
  The handle and the world after a series of requests, one identifier after the other,
  whatever each of them returned.
\<close>

fun GetCommits ::
  "'w env \<Rightarrow> (string \<Rightarrow> Command) \<Rightarrow> (string \<Rightarrow> string \<Rightarrow> 'c \<times> error option) \<Rightarrow> string list
     \<Rightarrow> ('c, 't) Repository \<times> 'w state \<Rightarrow> ('c, 't) Repository \<times> 'w state" where
  "GetCommits env lookupCommand parseCommit [] s = s"
| "GetCommits env lookupCommand parseCommit (commitId # ids) s =
     GetCommits env lookupCommand parseCommit ids
       (snd (GetCommit env lookupCommand parseCommit commitId s))"

section \<open>A test double\<close>

text \<open>
  A small concrete environment on which the operations can be run: the world is the
  list of directories that exist, the working directory if there is one, and whether
  the file system is read-only. Creating a directory fails on a read-only file system;
  a relative path has no absolute form when there is no working directory; the runner
  accepts every command and prints nothing.
\<close>

record fake_world =
  dirs :: "string list"
  cwd :: "string option"
  readonly :: bool

definition fake_Dir :: "string \<Rightarrow> string" where
  "fake_Dir p = rev (drop 1 (dropWhile (\<lambda>c. c \<noteq> CHR ''/'') (rev p)))"

definition fake_env :: "fake_world env" where
  "fake_env =
     \<lparr>os_MkdirAll = (\<lambda>p perm w.
          if readonly w then (Some (OtherError ''read-only file system''), w)
          else (None, w\<lparr>dirs := p # dirs w\<rparr>)),
      filepath_Abs = (\<lambda>p w.
          if take 1 p = ''/'' then (p, None)
          else (case cwd w of
                  None \<Rightarrow> ([], Some (OtherError ''getwd: no such file or directory''))
                | Some d \<Rightarrow> (d @ ''/'' @ p, None))),
      path_Dir = fake_Dir,
      isDir = (\<lambda>p w. p \<in> set (dirs w)),
      run = (\<lambda>c w. (([], None), w))\<rparr>"

definition fake_getCommit :: "string \<Rightarrow> nat \<Rightarrow> (string \<times> error option) \<times> nat" where
  "fake_getCommit commitId n =
     (if commitId = [] then (([], Some (OtherError ''bad revision'')), Suc n)
      else ((commitId, None), Suc n))"

section \<open>Empty log output\<close>

text \<open>
  C4. When the log output is empty, \<^verbatim>\<open>parsePrettyFormatLogToList\<close> returns an empty
  list and no error, and it does not ask for any commit: whatever the lookup is, the
  store is returned as it was and the record of requested identifiers has not grown.
\<close>

theorem parse_empty_log:
  "parsePrettyFormatLogToList getCommit [] s = ((Some [], None), s)
   \<and> parsePrettyFormatLogToList (recording getCommit) [] (s, asked) = ((Some [], None), (s, asked))"
  by (simp add: parsePrettyFormatLogToList_def)

section \<open>Failing and succeeding log lines\<close>

lemma split_from_nonempty: "split_from bs sep piece \<noteq> []"
  by (induction bs arbitrary: piece) auto




text \<open>
  The split is what the library documents: one piece more than there are separators,
  no separator inside a piece, and the pieces joined by the separator give the input
  back.
\<close>

lemma split_from_length: "length (split_from bs sep piece) = Suc (count_list bs sep)"
  by (induction bs arbitrary: piece) auto

lemma split_from_pieces:
  "sep \<notin> set piece \<Longrightarrow> \<forall>p \<in> set (split_from bs sep piece). sep \<notin> set p"
proof (induction bs arbitrary: piece)
  case Nil
  then show ?case by simp
next
  case (Cons b bs)
  show ?case
  proof (cases "b = sep")
    case True
    with Cons.IH [of "[]"] Cons.prems show ?thesis by simp
  next
    case False
    with Cons.IH [of "piece @ [b]"] Cons.prems show ?thesis by simp
  qed
qed

lemma bytes_Join_Cons:
  "ps \<noteq> [] \<Longrightarrow> bytes_Join (p # ps) sep = p @ sep # bytes_Join ps sep"
  by (cases ps) simp_all

lemma split_from_join: "bytes_Join (split_from bs sep piece) sep = piece @ bs"
  by (induction bs arbitrary: piece) (simp_all add: bytes_Join_Cons split_from_nonempty)

lemma bytes_Split_pieces:
  "length (bytes_Split s sep) = Suc (count_list s sep)
   \<and> (\<forall>p \<in> set (bytes_Split s sep). sep \<notin> set p)
   \<and> bytes_Join (bytes_Split s sep) sep = s"
  using split_from_pieces [of sep "[]" s]
  by (simp add: bytes_Split_def split_from_length split_from_join)

text \<open>
  The loop returns at the first line whose lookup fails; the error is the one the lookup
  gave and the list built so far is dropped.
\<close>

lemma parse_loop_first_failure:
  assumes "parse_loop getCommit pre l s = ((Some l1, None), s1)"
      and "getCommit bad s1 = ((c, Some err), s2)"
  shows "parse_loop getCommit (pre @ bad # post) l s = ((None, Some err), s2)"
  using assms
proof (induction pre arbitrary: l s)
  case Nil
  then show ?case by simp
next
  case (Cons p ps)
  obtain c1 e1 s' where g: "getCommit p s = ((c1, e1), s')"
    by (metis surj_pair)
  show ?case
  proof (cases e1)
    case (Some e)
    with g Cons.prems(1) show ?thesis by simp
  next
    case None
    with g Cons.prems(1) have "parse_loop getCommit ps (l @ [c1]) s' = ((Some l1, None), s1)"
      by simp
    from Cons.IH [OF this Cons.prems(2)] g None show ?thesis
      by simp
  qed
qed

lemma parse_loop_unresolvable:
  assumes "bad \<in> set parts" and "\<forall>s. snd (fst (getCommit bad s)) \<noteq> None"
  shows "\<exists>line s0 c err s'. line \<in> set parts \<and> getCommit line s0 = ((c, Some err), s')
           \<and> parse_loop getCommit parts l s = ((None, Some err), s')"
  using assms
proof (induction parts arbitrary: l s)
  case Nil
  then show ?case by simp
next
  case (Cons p ps)
  obtain c e s1 where g: "getCommit p s = ((c, e), s1)"
    by (metis surj_pair)
  show ?case
  proof (cases e)
    case (Some err)
    with g show ?thesis by fastforce
  next
    case None
    with g Cons.prems have "bad \<in> set ps"
      by (metis fst_conv set_ConsD snd_conv)
    from Cons.IH [OF this Cons.prems(2), of "l @ [c]" s1] g None show ?thesis
      by fastforce
  qed
qed

text \<open>
  C1. For a log output that is not empty, the parser fails as a whole as soon as the
  lookup of one line fails. If one of the newline-separated lines is an identifier
  whose lookup fails, \<^verbatim>\<open>parsePrettyFormatLogToList\<close> returns no list (\<^verbatim>\<open>nil\<close>)
  together with an error that the lookup returned for a line of the output. And in any
  run: when the lines before a line \<open>bad\<close> have resolved, leaving the store \<open>s1\<close>, and
  the lookup of \<open>bad\<close> fails there with \<open>err\<close>, the result is no list and \<open>err\<close>;
  the commits resolved before \<open>bad\<close> are not returned.
\<close>

theorem parse_fails_as_a_whole:
  assumes "logs \<noteq> []"
  shows "(\<forall>bad. bad \<in> set (bytes_Split logs newline)
             \<and> (\<forall>s0. snd (fst (getCommit bad s0)) \<noteq> None) \<longrightarrow>
           (\<exists>line s0 c err s'.
               line \<in> set (bytes_Split logs newline)
             \<and> getCommit line s0 = ((c, Some err), s')
             \<and> parsePrettyFormatLogToList getCommit logs s = ((None, Some err), s')))
       \<and> (\<forall>pre bad post l1 s1 c err s2.
             bytes_Split logs newline = pre @ bad # post
           \<and> parse_loop getCommit pre [] s = ((Some l1, None), s1)
           \<and> getCommit bad s1 = ((c, Some err), s2) \<longrightarrow>
             parsePrettyFormatLogToList getCommit logs s = ((None, Some err), s2))"
proof (intro conjI allI impI)
  fix bad
  assume "bad \<in> set (bytes_Split logs newline) \<and> (\<forall>s0. snd (fst (getCommit bad s0)) \<noteq> None)"
  with assms parse_loop_unresolvable [of bad "bytes_Split logs newline" getCommit "[]" s]
  show "\<exists>line s0 c err s'.
               line \<in> set (bytes_Split logs newline)
             \<and> getCommit line s0 = ((c, Some err), s')
             \<and> parsePrettyFormatLogToList getCommit logs s = ((None, Some err), s')"
    by (simp add: parsePrettyFormatLogToList_def)
next
  fix pre bad post l1 s1 c err s2
  assume run: "bytes_Split logs newline = pre @ bad # post
           \<and> parse_loop getCommit pre [] s = ((Some l1, None), s1)
           \<and> getCommit bad s1 = ((c, Some err), s2)"
  then have before: "parse_loop getCommit pre [] s = ((Some l1, None), s1)"
    and failing: "getCommit bad s1 = ((c, Some err), s2)"
    by simp_all
  from parse_loop_first_failure [OF before failing, of post]
  have "parse_loop getCommit (pre @ bad # post) [] s = ((None, Some err), s2)" .
  with assms run show "parsePrettyFormatLogToList getCommit logs s = ((None, Some err), s2)"
    by (simp add: parsePrettyFormatLogToList_def)
qed

text \<open>
  The output \<^verbatim>\<open>ab\<close>, an empty line, \<^verbatim>\<open>cd\<close>: the first line resolves, the empty one
  does not, and nothing of the first is returned.
\<close>

theorem parse_fails_as_a_whole_witness:
  "''ab'' @ [newline] @ [newline] @ ''cd'' \<noteq> []
   \<and> bytes_Split (''ab'' @ [newline] @ [newline] @ ''cd'') newline = [''ab''] @ [] # [''cd'']
   \<and> (\<forall>n. snd (fst (fake_getCommit [] n)) \<noteq> None)
   \<and> parse_loop fake_getCommit [''ab''] [] 0 = ((Some [''ab''], None), 1)
   \<and> fake_getCommit [] 1 = (([], Some (OtherError ''bad revision'')), 2)
   \<and> parsePrettyFormatLogToList fake_getCommit (''ab'' @ [newline] @ [newline] @ ''cd'') 0
        = ((None, Some (OtherError ''bad revision'')), 2)"
proof -
  let ?logs = "''ab'' @ [newline] @ [newline] @ ''cd''"
  have a: "?logs \<noteq> []"
    by simp
  have b: "bytes_Split ?logs newline = [''ab''] @ [] # [''cd'']"
    by (simp add: bytes_Split_def newline_def)
  have c: "\<forall>n. snd (fst (fake_getCommit [] n)) \<noteq> None"
    by (simp add: fake_getCommit_def)
  have d: "parse_loop fake_getCommit [''ab''] [] 0 = ((Some [''ab''], None), 1)"
    by (simp add: fake_getCommit_def)
  have e: "fake_getCommit [] 1 = (([], Some (OtherError ''bad revision'')), 2)"
    by (simp add: fake_getCommit_def)
  note t = parse_fails_as_a_whole [OF a, of fake_getCommit 0]
  from t [THEN conjunct1] b c
  have some: "\<exists>err s'. parsePrettyFormatLogToList fake_getCommit ?logs 0 = ((None, Some err), s')"
    by (metis in_set_conv_decomp)
  from t [THEN conjunct2] b d e
  have this_one: "parsePrettyFormatLogToList fake_getCommit ?logs 0
       = ((None, Some (OtherError ''bad revision'')), 2)"
    by blast
  from a b c d e some this_one show ?thesis
    by (intro conjI)
qed

section \<open>Which identifiers the parser asks for\<close>







section \<open>What the operations run\<close>

text \<open>
  Each operation, written as the one runner call it makes on the command it has built.
\<close>

lemma exec_eq:
  "run env c (world st) = (res, w') \<Longrightarrow>
   exec env c st = (res, \<lparr>world = w', events = events st @ [Run_event c]\<rparr>)"
  by (simp add: exec_def)

lemma MkdirAll_eq:
  "os_MkdirAll env p perm (world st) = (err, w') \<Longrightarrow>
   MkdirAll env p perm st = (err, \<lparr>world = w', events = events st @ [MkdirAll_event p perm]\<rparr>)"
  by (simp add: MkdirAll_def)

lemma events_after_exec:
  "events (snd (case exec env c st of ((out, err), st1) \<Rightarrow> (err, st1))) = events st @ [Run_event c]"
  by (simp add: exec_def split: prod.splits)

lemma Clone_mkdir_failed:
  assumes "os_MkdirAll env (path_Dir env toPath) os_ModePerm (world st) = (Some err, w1)"
  shows "Clone env fromPath toPath opts st =
           (Some err, \<lparr>world = w1, events = events st @ [MkdirAll_event (path_Dir env toPath) os_ModePerm]\<rparr>)"
  using assms by (simp add: Clone_def MkdirAll_eq)

lemma Clone_mkdir_ok:
  assumes "os_MkdirAll env (path_Dir env toPath) os_ModePerm (world st) = (None, w1)"
  shows "Clone env fromPath toPath opts st =
           (case exec env (Call_RunTimeout
                   \<lparr>cmd_args = ''clone'' # (if Clone_Mirror opts then [''--mirror''] else [])
                       @ (if Clone_Bare opts then [''--bare''] else [])
                       @ (if Clone_Quiet opts then [''--quiet''] else [])
                       @ [fromPath, toPath]\<rparr>
                   (if Clone_Timeout opts \<le> 0 then - 1 else Clone_Timeout opts))
                 \<lparr>world = w1, events = events st @ [MkdirAll_event (path_Dir env toPath) os_ModePerm]\<rparr> of
              ((out, err), st2) \<Rightarrow> (err, st2))"
  using assms
  by (simp add: Clone_def MkdirAll_eq RunTimeout_def NewCommand_def AddArguments_def Let_def)

lemma Push_eq:
  "Push env repoPath remote branch opts st =
     (case exec env (Call_RunInDir
             \<lparr>cmd_args = ''push'' # (if Push_Force opts then [''--force''] else []) @ [remote, branch]\<rparr>
             repoPath) st of
        ((out, err), st1) \<Rightarrow> (err, st1))"
  by (simp add: Push_def RunInDir_def NewCommand_def AddArguments_def Let_def)

lemma ResetHEAD_eq:
  "ResetHEAD env repoPath hard revision st =
     (case exec env (Call_RunInDir
             \<lparr>cmd_args = ''reset'' # (if hard then [''--hard''] else []) @ [revision]\<rparr>
             repoPath) st of
        ((out, err), st1) \<Rightarrow> (err, st1))"
  by (simp add: ResetHEAD_def RunInDir_def NewCommand_def AddArguments_def Let_def)



subsection \<open>Initialising a repository\<close>

text \<open>
  C8. \<^verbatim>\<open>InitRepository\<close> does not look at what the directory creation returned:
  whether \<^verbatim>\<open>os.MkdirAll\<close> gave an error or not (\<open>mkdirErr\<close> is any outcome), the
  \<^verbatim>\<open>init\<close> subprocess is run next, and the error returned to the caller is the one
  of that subprocess and nothing else. A failure to create the repository path is
  never reported.
\<close>

theorem InitRepository_ignores_MkdirAll:
  assumes "os_MkdirAll env repoPath os_ModePerm (world st) = (mkdirErr, w1)"
      and "run env (Call_RunInDir \<lparr>cmd_args = ''init'' # (if bare then [''--bare''] else [])\<rparr> repoPath) w1
             = ((out, err), w2)"
  shows "InitRepository env repoPath bare st =
           (err, \<lparr>world = w2,
                  events = events st @
                    [MkdirAll_event repoPath os_ModePerm,
                     Run_event (Call_RunInDir
                       \<lparr>cmd_args = ''init'' # (if bare then [''--bare''] else [])\<rparr> repoPath)]\<rparr>)"
proof (cases bare)
  case True
  with assms show ?thesis
    by (simp add: InitRepository_def MkdirAll_eq RunInDir_def exec_eq NewCommand_def AddArguments_def)
next
  case False
  with assms show ?thesis
    by (simp add: InitRepository_def MkdirAll_eq RunInDir_def exec_eq NewCommand_def AddArguments_def)
qed

text \<open>
  On a read-only file system the directory is not created, and the caller is told
  nothing of it: the result is \<^verbatim>\<open>nil\<close>, as the runner succeeds.
\<close>

theorem InitRepository_ignores_MkdirAll_witness:
  "os_MkdirAll fake_env ''/srv/repo'' os_ModePerm (world \<lparr>world = \<lparr>dirs = [], cwd = None, readonly = True\<rparr>, events = []\<rparr>)
      = (Some (OtherError ''read-only file system''), \<lparr>dirs = [], cwd = None, readonly = True\<rparr>)
   \<and> InitRepository fake_env ''/srv/repo'' True \<lparr>world = \<lparr>dirs = [], cwd = None, readonly = True\<rparr>, events = []\<rparr>
      = (None, \<lparr>world = \<lparr>dirs = [], cwd = None, readonly = True\<rparr>,
                 events = [MkdirAll_event ''/srv/repo'' os_ModePerm,
                           Run_event (Call_RunInDir \<lparr>cmd_args = [''init'', ''--bare'']\<rparr> ''/srv/repo'')]\<rparr>)"
proof -
  let ?w = "\<lparr>dirs = [], cwd = None, readonly = True\<rparr>"
  have m: "os_MkdirAll fake_env ''/srv/repo'' os_ModePerm (world \<lparr>world = ?w, events = []\<rparr>)
      = (Some (OtherError ''read-only file system''), ?w)"
    by (simp add: fake_env_def)
  have r: "run fake_env (Call_RunInDir \<lparr>cmd_args = ''init'' # (if True then [''--bare''] else [])\<rparr> ''/srv/repo'') ?w
      = (([], None), ?w)"
    by (simp add: fake_env_def)
  from InitRepository_ignores_MkdirAll [OF m r] m show ?thesis
    by simp
qed

subsection \<open>Cloning\<close>

text \<open>
  C5. \<^verbatim>\<open>Clone\<close> first calls \<^verbatim>\<open>os.MkdirAll\<close>, the library call that creates a
  directory with all its missing ancestors, on \<^verbatim>\<open>path.Dir\<close> of the target. If that
  fails, its error is returned and no subprocess has been invoked. If it succeeds, one
  subprocess is invoked after it, in the world the directory creation left, and its
  outcome is returned.
\<close>

theorem Clone_creates_directory_first:
  "(os_MkdirAll env (path_Dir env toPath) os_ModePerm (world st) = (Some err, w1) \<longrightarrow>
      Clone env fromPath toPath opts st =
        (Some err, \<lparr>world = w1,
                    events = events st @ [MkdirAll_event (path_Dir env toPath) os_ModePerm]\<rparr>))
   \<and> (os_MkdirAll env (path_Dir env toPath) os_ModePerm (world st) = (None, w1) \<longrightarrow>
        (\<exists>cmd timeout out runErr w2.
            run env (Call_RunTimeout cmd timeout) w1 = ((out, runErr), w2)
          \<and> Clone env fromPath toPath opts st =
              (runErr, \<lparr>world = w2,
                        events = events st @
                          [MkdirAll_event (path_Dir env toPath) os_ModePerm,
                           Run_event (Call_RunTimeout cmd timeout)]\<rparr>)))"
proof -
  have ok: "\<exists>cmd timeout out runErr w2.
            run env (Call_RunTimeout cmd timeout) w1 = ((out, runErr), w2)
          \<and> Clone env fromPath toPath opts st =
              (runErr, \<lparr>world = w2,
                        events = events st @
                          [MkdirAll_event (path_Dir env toPath) os_ModePerm,
                           Run_event (Call_RunTimeout cmd timeout)]\<rparr>)"
    if m: "os_MkdirAll env (path_Dir env toPath) os_ModePerm (world st) = (None, w1)"
  proof -
    let ?c = "Call_RunTimeout
                   \<lparr>cmd_args = ''clone'' # (if Clone_Mirror opts then [''--mirror''] else [])
                       @ (if Clone_Bare opts then [''--bare''] else [])
                       @ (if Clone_Quiet opts then [''--quiet''] else [])
                       @ [fromPath, toPath]\<rparr>
                   (if Clone_Timeout opts \<le> 0 then - 1 else Clone_Timeout opts)"
    obtain out runErr w2 where r: "run env ?c w1 = ((out, runErr), w2)"
      by (metis surj_pair)
    then have "Clone env fromPath toPath opts st =
              (runErr, \<lparr>world = w2,
                        events = events st @
                          [MkdirAll_event (path_Dir env toPath) os_ModePerm, Run_event ?c]\<rparr>)"
      by (simp add: Clone_mkdir_ok [OF m] exec_def)
    with r show ?thesis by blast
  qed
  have failed: "Clone env fromPath toPath opts st =
        (Some err, \<lparr>world = w1,
                    events = events st @ [MkdirAll_event (path_Dir env toPath) os_ModePerm]\<rparr>)"
    if "os_MkdirAll env (path_Dir env toPath) os_ModePerm (world st) = (Some err, w1)"
    using that by (rule Clone_mkdir_failed)
  from failed ok show ?thesis
    by (intro conjI impI)
qed

theorem Clone_creates_directory_first_witness:
  "Clone fake_env ''/mirror/a.git'' ''/srv/git/a.git''
       \<lparr>Clone_Mirror = True, Clone_Bare = False, Clone_Quiet = True, Clone_Timeout = 0\<rparr>
       \<lparr>world = \<lparr>dirs = [], cwd = None, readonly = True\<rparr>, events = []\<rparr>
     = (Some (OtherError ''read-only file system''),
        \<lparr>world = \<lparr>dirs = [], cwd = None, readonly = True\<rparr>,
         events = [MkdirAll_event ''/srv/git'' os_ModePerm]\<rparr>)
   \<and> events (snd (Clone fake_env ''/mirror/a.git'' ''/srv/git/a.git''
       \<lparr>Clone_Mirror = True, Clone_Bare = False, Clone_Quiet = True, Clone_Timeout = 0\<rparr>
       \<lparr>world = \<lparr>dirs = [], cwd = None, readonly = False\<rparr>, events = []\<rparr>))
     = [MkdirAll_event ''/srv/git'' os_ModePerm,
        Run_event (Call_RunTimeout
          \<lparr>cmd_args = [''clone'', ''--mirror'', ''--quiet'', ''/mirror/a.git'', ''/srv/git/a.git'']\<rparr>
          (- 1))]"
proof -
  let ?opts = "\<lparr>Clone_Mirror = True, Clone_Bare = False, Clone_Quiet = True, Clone_Timeout = 0\<rparr>"
  let ?ro = "\<lparr>dirs = [], cwd = None, readonly = True\<rparr>"
  let ?rw = "\<lparr>dirs = [], cwd = None, readonly = False\<rparr>"
  have d: "path_Dir fake_env ''/srv/git/a.git'' = ''/srv/git''"
    by (simp add: fake_env_def fake_Dir_def)
  have fails: "os_MkdirAll fake_env (path_Dir fake_env ''/srv/git/a.git'') os_ModePerm
                 (world \<lparr>world = ?ro, events = []\<rparr>)
               = (Some (OtherError ''read-only file system''), ?ro)"
    by (simp add: fake_env_def)
  have works: "os_MkdirAll fake_env (path_Dir fake_env ''/srv/git/a.git'') os_ModePerm
                 (world \<lparr>world = ?rw, events = []\<rparr>)
               = (None, ?rw\<lparr>dirs := [''/srv/git'']\<rparr>)"
    by (simp add: fake_env_def fake_Dir_def)
  from Clone_creates_directory_first
         [of fake_env "''/srv/git/a.git''" "\<lparr>world = ?ro, events = []\<rparr>"
             "OtherError ''read-only file system''" ?ro "''/mirror/a.git''" ?opts] fails d
  have one: "Clone fake_env ''/mirror/a.git'' ''/srv/git/a.git'' ?opts \<lparr>world = ?ro, events = []\<rparr>
     = (Some (OtherError ''read-only file system''),
        \<lparr>world = ?ro, events = [MkdirAll_event ''/srv/git'' os_ModePerm]\<rparr>)"
    by simp
  have two: "events (snd (Clone fake_env ''/mirror/a.git'' ''/srv/git/a.git'' ?opts
       \<lparr>world = ?rw, events = []\<rparr>))
     = [MkdirAll_event ''/srv/git'' os_ModePerm,
        Run_event (Call_RunTimeout
          \<lparr>cmd_args = [''clone'', ''--mirror'', ''--quiet'', ''/mirror/a.git'', ''/srv/git/a.git'']\<rparr>
          (- 1))]"
    using Clone_mkdir_ok [OF works, of "''/mirror/a.git''" ?opts]
    by (simp add: exec_def fake_env_def fake_Dir_def)
  from one two show ?thesis by simp
qed

subsection \<open>Arguments\<close>

text \<open>
  C6. The argument lists the operations hand to the runner. \<^verbatim>\<open>Clone\<close> (once the
  target's directory exists): \<^verbatim>\<open>clone\<close>, then \<^verbatim>\<open>--mirror\<close> if and only if
  \<^verbatim>\<open>Mirror\<close>, \<^verbatim>\<open>--bare\<close> if and only if \<^verbatim>\<open>Bare\<close>, \<^verbatim>\<open>--quiet\<close> if and only if
  \<^verbatim>\<open>Quiet\<close>, then the source and the target. \<^verbatim>\<open>Push\<close>: \<^verbatim>\<open>push\<close>, then
  \<^verbatim>\<open>--force\<close> if and only if \<^verbatim>\<open>Force\<close>, then the remote and the branch.
  \<^verbatim>\<open>ResetHEAD\<close>: \<^verbatim>\<open>reset\<close>, then \<^verbatim>\<open>--hard\<close> if and only if \<^verbatim>\<open>hard\<close>,
  then the revision.
\<close>

theorem commands_assembled:
  "(fst (os_MkdirAll env (path_Dir env toPath) os_ModePerm (world st)) = None \<longrightarrow>
      (\<exists>timeout. events (snd (Clone env fromPath toPath copts st)) =
         events st @
           [MkdirAll_event (path_Dir env toPath) os_ModePerm,
            Run_event (Call_RunTimeout
              \<lparr>cmd_args = ''clone'' # (if Clone_Mirror copts then [''--mirror''] else [])
                  @ (if Clone_Bare copts then [''--bare''] else [])
                  @ (if Clone_Quiet copts then [''--quiet''] else [])
                  @ [fromPath, toPath]\<rparr> timeout)]))
   \<and> events (snd (Push env repoPath remote branch popts st)) =
       events st @
         [Run_event (Call_RunInDir
            \<lparr>cmd_args = ''push'' # (if Push_Force popts then [''--force''] else [])
                @ [remote, branch]\<rparr> repoPath)]
   \<and> events (snd (ResetHEAD env repoPath hard revision st)) =
       events st @
         [Run_event (Call_RunInDir
            \<lparr>cmd_args = ''reset'' # (if hard then [''--hard''] else []) @ [revision]\<rparr> repoPath)]"
proof -
  have clone: "\<exists>timeout. events (snd (Clone env fromPath toPath copts st)) =
         events st @
           [MkdirAll_event (path_Dir env toPath) os_ModePerm,
            Run_event (Call_RunTimeout
              \<lparr>cmd_args = ''clone'' # (if Clone_Mirror copts then [''--mirror''] else [])
                  @ (if Clone_Bare copts then [''--bare''] else [])
                  @ (if Clone_Quiet copts then [''--quiet''] else [])
                  @ [fromPath, toPath]\<rparr> timeout)]"
    if ok: "fst (os_MkdirAll env (path_Dir env toPath) os_ModePerm (world st)) = None"
  proof -
    from ok obtain w1 where
      "os_MkdirAll env (path_Dir env toPath) os_ModePerm (world st) = (None, w1)"
      by (metis prod.collapse)
    from Clone_mkdir_ok [OF this] show ?thesis
      by (simp add: events_after_exec)
  qed
  have push: "events (snd (Push env repoPath remote branch popts st)) =
       events st @
         [Run_event (Call_RunInDir
            \<lparr>cmd_args = ''push'' # (if Push_Force popts then [''--force''] else [])
                @ [remote, branch]\<rparr> repoPath)]"
    unfolding Push_eq by (rule events_after_exec)
  have reset: "events (snd (ResetHEAD env repoPath hard revision st)) =
       events st @
         [Run_event (Call_RunInDir
            \<lparr>cmd_args = ''reset'' # (if hard then [''--hard''] else []) @ [revision]\<rparr> repoPath)]"
    unfolding ResetHEAD_eq by (rule events_after_exec)
  from clone push reset show ?thesis
    by (intro conjI impI)
qed

theorem commands_assembled_witness:
  "fst (os_MkdirAll fake_env (path_Dir fake_env ''/srv/git/a.git'') os_ModePerm
          (world \<lparr>world = \<lparr>dirs = [], cwd = None, readonly = False\<rparr>, events = []\<rparr>)) = None
   \<and> (\<exists>timeout. events (snd (Clone fake_env ''/mirror/a.git'' ''/srv/git/a.git''
       \<lparr>Clone_Mirror = True, Clone_Bare = False, Clone_Quiet = True, Clone_Timeout = 0\<rparr>
       \<lparr>world = \<lparr>dirs = [], cwd = None, readonly = False\<rparr>, events = []\<rparr>))
     = [MkdirAll_event ''/srv/git'' os_ModePerm,
        Run_event (Call_RunTimeout
          \<lparr>cmd_args = [''clone'', ''--mirror'', ''--quiet'', ''/mirror/a.git'', ''/srv/git/a.git'']\<rparr>
          timeout)])
   \<and> events (snd (Push fake_env ''/srv/repo'' ''origin'' ''master'' \<lparr>Push_Force = True\<rparr>
       \<lparr>world = \<lparr>dirs = [], cwd = None, readonly = False\<rparr>, events = []\<rparr>))
     = [Run_event (Call_RunInDir \<lparr>cmd_args = [''push'', ''--force'', ''origin'', ''master'']\<rparr>
          ''/srv/repo'')]
   \<and> events (snd (ResetHEAD fake_env ''/srv/repo'' False ''HEAD~1''
       \<lparr>world = \<lparr>dirs = [], cwd = None, readonly = False\<rparr>, events = []\<rparr>))
     = [Run_event (Call_RunInDir \<lparr>cmd_args = [''reset'', ''HEAD~1'']\<rparr> ''/srv/repo'')]"
proof -
  let ?st = "\<lparr>world = \<lparr>dirs = [], cwd = None, readonly = False\<rparr>, events = []\<rparr>"
  let ?copts = "\<lparr>Clone_Mirror = True, Clone_Bare = False, Clone_Quiet = True, Clone_Timeout = 0\<rparr>"
  have m: "fst (os_MkdirAll fake_env (path_Dir fake_env ''/srv/git/a.git'') os_ModePerm (world ?st)) = None"
    by (simp add: fake_env_def)
  have d: "path_Dir fake_env ''/srv/git/a.git'' = ''/srv/git''"
    by (simp add: fake_env_def fake_Dir_def)
  from m d commands_assembled
      [of fake_env "''/srv/git/a.git''" ?st "''/mirror/a.git''" ?copts "''/srv/repo''"
          "''origin''" "''master''" "\<lparr>Push_Force = True\<rparr>" False "''HEAD~1''"]
  show ?thesis by simp
qed

subsection \<open>Timeouts\<close>



section \<open>Opening a repository\<close>

lemma OpenRepository_fresh_caches:
  assumes "OpenRepository env repoPath w = (Some opened, err)"
  shows "commitCache opened = Map.empty \<and> tagCache opened = Map.empty"
  using assms
  by (auto simp add: OpenRepository_def newObjectCache_def split: prod.splits option.splits if_splits)

text \<open>
  The claim C3 as it is written, that every existing directory can be opened, fails
  where the absolute form of the path cannot be computed: the current directory
  \<^verbatim>\<open>.\<close> of a process whose working directory can no longer be named is an existing
  directory, and \<^verbatim>\<open>OpenRepository\<close> returns the error of \<^verbatim>\<open>filepath.Abs\<close> and no
  handle.
\<close>

theorem OpenRepository_existing_directory_counterexample:
  "isDir fake_env ''.'' \<lparr>dirs = [''.''], cwd = None, readonly = False\<rparr>
   \<and> (OpenRepository fake_env ''.'' \<lparr>dirs = [''.''], cwd = None, readonly = False\<rparr>
        :: (unit, unit) Repository option \<times> error option)
       = (None, Some (OtherError ''getwd: no such file or directory''))"
  by (simp add: OpenRepository_def fake_env_def)

text \<open>
  C3, amended. \<^verbatim>\<open>OpenRepository\<close> first computes the absolute form of the path. If
  that fails it returns that error and no handle. Otherwise, if the absolute path does
  not exist or is not a directory, it returns the error
  \<^verbatim>\<open>no such file or directory\<close> and no handle; and if the absolute path is an
  existing directory, it returns a handle and no error.
\<close>

theorem OpenRepository_by_absolute_path:
  "(filepath_Abs env repoPath w = (a, Some err) \<longrightarrow>
      OpenRepository env repoPath w = (None, Some err))
   \<and> (filepath_Abs env repoPath w = (a, None) \<and> \<not> isDir env a w \<longrightarrow>
      OpenRepository env repoPath w = (None, Some (errors_New ''no such file or directory'')))
   \<and> (filepath_Abs env repoPath w = (a, None) \<and> isDir env a w \<longrightarrow>
      (\<exists>repo. OpenRepository env repoPath w = (Some repo, None) \<and> Path repo = a))"
  by (simp add: OpenRepository_def)

theorem OpenRepository_by_absolute_path_witness:
  "filepath_Abs fake_env ''.'' \<lparr>dirs = [''.''], cwd = None, readonly = False\<rparr>
       = ([], Some (OtherError ''getwd: no such file or directory''))
   \<and> (OpenRepository fake_env ''.'' \<lparr>dirs = [''.''], cwd = None, readonly = False\<rparr>
        :: (unit, unit) Repository option \<times> error option)
       = (None, Some (OtherError ''getwd: no such file or directory''))
   \<and> filepath_Abs fake_env ''repo'' \<lparr>dirs = [''/srv''], cwd = Some ''/srv'', readonly = False\<rparr>
       = (''/srv/repo'', None)
   \<and> \<not> isDir fake_env ''/srv/repo'' \<lparr>dirs = [''/srv''], cwd = Some ''/srv'', readonly = False\<rparr>
   \<and> (OpenRepository fake_env ''repo'' \<lparr>dirs = [''/srv''], cwd = Some ''/srv'', readonly = False\<rparr>
        :: (unit, unit) Repository option \<times> error option)
       = (None, Some (errors_New ''no such file or directory''))
   \<and> filepath_Abs fake_env ''repo'' \<lparr>dirs = [''/srv/repo''], cwd = Some ''/srv'', readonly = False\<rparr>
       = (''/srv/repo'', None)
   \<and> isDir fake_env ''/srv/repo'' \<lparr>dirs = [''/srv/repo''], cwd = Some ''/srv'', readonly = False\<rparr>
   \<and> (\<exists>repo :: (unit, unit) Repository.
         OpenRepository fake_env ''repo'' \<lparr>dirs = [''/srv/repo''], cwd = Some ''/srv'', readonly = False\<rparr>
           = (Some repo, None) \<and> Path repo = ''/srv/repo'')"
proof -
  let ?nocwd = "\<lparr>dirs = [''.''], cwd = None, readonly = False\<rparr>"
  let ?missing = "\<lparr>dirs = [''/srv''], cwd = Some ''/srv'', readonly = False\<rparr>"
  let ?present = "\<lparr>dirs = [''/srv/repo''], cwd = Some ''/srv'', readonly = False\<rparr>"
  have a1: "filepath_Abs fake_env ''.'' ?nocwd = ([], Some (OtherError ''getwd: no such file or directory''))"
    by (simp add: fake_env_def)
  have a2: "filepath_Abs fake_env ''repo'' ?missing = (''/srv/repo'', None)"
    by (simp add: fake_env_def)
  have d2: "\<not> isDir fake_env ''/srv/repo'' ?missing"
    by (simp add: fake_env_def)
  have a3: "filepath_Abs fake_env ''repo'' ?present = (''/srv/repo'', None)"
    by (simp add: fake_env_def)
  have d3: "isDir fake_env ''/srv/repo'' ?present"
    by (simp add: fake_env_def)
  note t1 = OpenRepository_by_absolute_path
      [where ?'c = unit and ?'d = unit, of fake_env "''.''" ?nocwd "[]"
         "OtherError ''getwd: no such file or directory''", THEN conjunct1]
  note t2 = OpenRepository_by_absolute_path
      [where ?'c = unit and ?'d = unit, of fake_env "''repo''" ?missing "''/srv/repo''",
         THEN conjunct2, THEN conjunct1]
  note t3 = OpenRepository_by_absolute_path
      [where ?'c = unit and ?'d = unit, of fake_env "''repo''" ?present "''/srv/repo''",
         THEN conjunct2, THEN conjunct2]
  from t1 a1 have r1: "(OpenRepository fake_env ''.'' ?nocwd :: (unit, unit) Repository option \<times> error option)
       = (None, Some (OtherError ''getwd: no such file or directory''))"
    by blast
  from t2 a2 d2 have r2: "(OpenRepository fake_env ''repo'' ?missing :: (unit, unit) Repository option \<times> error option)
       = (None, Some (errors_New ''no such file or directory''))"
    by blast
  from t3 a3 d3 have r3: "\<exists>repo :: (unit, unit) Repository.
         OpenRepository fake_env ''repo'' ?present = (Some repo, None) \<and> Path repo = ''/srv/repo''"
    by blast
  from a1 r1 a2 d2 r2 a3 d3 r3 show ?thesis
    by (intro conjI)
qed

text \<open>
  C10. Whenever \<^verbatim>\<open>OpenRepository\<close> returns a handle, it returns no error, and the
  \<^verbatim>\<open>Path\<close> of the handle is what \<^verbatim>\<open>filepath.Abs\<close> computed for the given path,
  an existing directory. So, \<^verbatim>\<open>filepath.Abs\<close> returning absolute paths only, the
  \<^verbatim>\<open>Path\<close> of every handle that \<^verbatim>\<open>OpenRepository\<close> returns is absolute.
\<close>

theorem OpenRepository_Path_is_absolute_form:
  assumes "OpenRepository env repoPath w = (Some repo, err)"
  shows "err = None
       \<and> filepath_Abs env repoPath w = (Path repo, None)
       \<and> isDir env (Path repo) w
       \<and> ((\<forall>p a. filepath_Abs env p w = (a, None) \<longrightarrow> filepath_IsAbs a) \<longrightarrow> filepath_IsAbs (Path repo))"
proof -
  obtain a e where abs: "filepath_Abs env repoPath w = (a, e)"
    by (metis surj_pair)
  with assms have e: "e = None"
    by (cases e) (simp_all add: OpenRepository_def)
  with abs assms have d: "isDir env a w"
    by (simp add: OpenRepository_def split: if_splits)
  with abs e assms have p: "Path repo = a" and n: "err = None"
    by (auto simp add: OpenRepository_def)
  from abs e d p n show ?thesis by auto
qed

theorem OpenRepository_Path_is_absolute_form_witness:
  "(OpenRepository fake_env ''repo'' \<lparr>dirs = [''/srv/repo''], cwd = Some ''/srv'', readonly = False\<rparr>
      :: (unit, unit) Repository option \<times> error option)
     = (Some \<lparr>Path = ''/srv/repo'', commitCache = Map.empty, tagCache = Map.empty\<rparr>, None)
   \<and> filepath_Abs fake_env ''repo'' \<lparr>dirs = [''/srv/repo''], cwd = Some ''/srv'', readonly = False\<rparr>
       = (''/srv/repo'', None)
   \<and> filepath_IsAbs ''/srv/repo''"
proof -
  let ?w = "\<lparr>dirs = [''/srv/repo''], cwd = Some ''/srv'', readonly = False\<rparr>"
  let ?repo = "\<lparr>Path = ''/srv/repo'', commitCache = Map.empty, tagCache = Map.empty\<rparr> :: (unit, unit) Repository"
  have opened: "OpenRepository fake_env ''repo'' ?w = (Some ?repo, None)"
    by (simp add: OpenRepository_def fake_env_def newObjectCache_def)
  have contract: "\<forall>p a. filepath_Abs fake_env p ?w = (a, None) \<longrightarrow> filepath_IsAbs a"
    by (auto simp add: fake_env_def filepath_IsAbs_def split: if_splits)
  from OpenRepository_Path_is_absolute_form [OF opened] contract
  have "filepath_Abs fake_env ''repo'' ?w = (''/srv/repo'', None) \<and> filepath_IsAbs ''/srv/repo''"
    by simp
  with opened show ?thesis by simp
qed

section \<open>The commit cache\<close>

lemma GetCommit_hit:
  "commitCache repo commitId = Some c \<Longrightarrow>
   GetCommit env lookupCommand parseCommit commitId (repo, st) = ((Some c, None), (repo, st))"
  by (simp add: GetCommit_def)

lemma GetCommit_success_cached:
  assumes "GetCommit env lookupCommand parseCommit commitId (repo, st) = ((Some c, None), (repo1, st1))"
  shows "commitCache repo1 commitId = Some c"
  using assms
  by (auto simp add: GetCommit_def split: option.splits prod.splits)

lemma GetCommit_keeps:
  assumes "commitCache repo commitId = Some c"
  shows "commitCache (fst (snd (GetCommit env lookupCommand parseCommit other (repo, st)))) commitId
           = Some c"
  using assms
  by (auto simp add: GetCommit_def split: option.splits prod.splits)

lemma GetCommits_keeps:
  assumes "commitCache repo commitId = Some c"
  shows "commitCache (fst (GetCommits env lookupCommand parseCommit ids (repo, st))) commitId = Some c"
  using assms
proof (induction ids arbitrary: repo st)
  case Nil
  then show ?case by simp
next
  case (Cons other ids)
  obtain res repo' st' where
    step: "GetCommit env lookupCommand parseCommit other (repo, st) = (res, (repo', st'))"
    by (metis surj_pair)
  with GetCommit_keeps [OF Cons.prems, of env lookupCommand parseCommit other st]
  have "commitCache repo' commitId = Some c"
    by simp
  from Cons.IH [OF this, of st'] step show ?case
    by simp
qed

text \<open>
  C7. When a request for a commit identifier has returned a commit, a second request
  for the same identifier on the same handle, at once or after any number of other
  requests, returns that commit from the commit cache and leaves the handle and the
  world as they are: no subprocess is invoked for it. Both caches of a handle that
  \<^verbatim>\<open>OpenRepository\<close> has just returned are empty.
\<close>

theorem second_request_served_from_cache:
  assumes "GetCommit env lookupCommand parseCommit commitId (repo, st) = ((Some c, None), (repo1, st1))"
      and "GetCommits env lookupCommand parseCommit ids (repo1, st1) = (repo2, st2)"
  shows "GetCommit env lookupCommand parseCommit commitId (repo1, st1) = ((Some c, None), (repo1, st1))
       \<and> GetCommit env lookupCommand parseCommit commitId (repo2, st2) = ((Some c, None), (repo2, st2))
       \<and> (\<forall>opened err. OpenRepository env repoPath w = (Some opened, err) \<longrightarrow>
             commitCache opened = Map.empty \<and> tagCache opened = Map.empty)"
proof -
  from GetCommit_success_cached [OF assms(1)] have cached: "commitCache repo1 commitId = Some c" .
  from GetCommits_keeps [OF cached, of env lookupCommand parseCommit ids st1] assms(2)
  have later: "commitCache repo2 commitId = Some c"
    by simp
  show ?thesis
  proof (intro conjI allI impI)
    show "GetCommit env lookupCommand parseCommit commitId (repo1, st1) = ((Some c, None), (repo1, st1))"
      by (rule GetCommit_hit [OF cached])
    show "GetCommit env lookupCommand parseCommit commitId (repo2, st2) = ((Some c, None), (repo2, st2))"
      by (rule GetCommit_hit [OF later])
  next
    fix opened err
    assume "OpenRepository env repoPath w = (Some opened, err)"
    from OpenRepository_fresh_caches [OF this]
    show "commitCache opened = Map.empty" and "tagCache opened = Map.empty"
      by simp_all
  qed
qed

theorem second_request_served_from_cache_witness:
  "(OpenRepository fake_env ''/srv/repo'' \<lparr>dirs = [''/srv/repo''], cwd = None, readonly = False\<rparr>
      :: (string, unit) Repository option \<times> error option)
     = (Some \<lparr>Path = ''/srv/repo'', commitCache = Map.empty, tagCache = Map.empty\<rparr>, None)
   \<and> GetCommit fake_env (\<lambda>commitId. NewCommand [''cat-file'', ''-p'', commitId])
        (\<lambda>commitId out. (commitId @ out, None)) ''c0ffee''
        (\<lparr>Path = ''/srv/repo'', commitCache = Map.empty, tagCache = Map.empty :: unit objectCache\<rparr>,
         \<lparr>world = \<lparr>dirs = [''/srv/repo''], cwd = None, readonly = False\<rparr>, events = []\<rparr>)
     = ((Some ''c0ffee'', None),
        (\<lparr>Path = ''/srv/repo'', commitCache = [''c0ffee'' \<mapsto> ''c0ffee''], tagCache = Map.empty\<rparr>,
         \<lparr>world = \<lparr>dirs = [''/srv/repo''], cwd = None, readonly = False\<rparr>,
          events = [Run_event (Call_RunInDir \<lparr>cmd_args = [''cat-file'', ''-p'', ''c0ffee'']\<rparr> ''/srv/repo'')]\<rparr>))
   \<and> GetCommit fake_env (\<lambda>commitId. NewCommand [''cat-file'', ''-p'', commitId])
        (\<lambda>commitId out. (commitId @ out, None)) ''c0ffee''
        (\<lparr>Path = ''/srv/repo'', commitCache = [''c0ffee'' \<mapsto> ''c0ffee''], tagCache = Map.empty :: unit objectCache\<rparr>,
         \<lparr>world = \<lparr>dirs = [''/srv/repo''], cwd = None, readonly = False\<rparr>,
          events = [Run_event (Call_RunInDir \<lparr>cmd_args = [''cat-file'', ''-p'', ''c0ffee'']\<rparr> ''/srv/repo'')]\<rparr>)
     = ((Some ''c0ffee'', None),
        (\<lparr>Path = ''/srv/repo'', commitCache = [''c0ffee'' \<mapsto> ''c0ffee''], tagCache = Map.empty\<rparr>,
         \<lparr>world = \<lparr>dirs = [''/srv/repo''], cwd = None, readonly = False\<rparr>,
          events = [Run_event (Call_RunInDir \<lparr>cmd_args = [''cat-file'', ''-p'', ''c0ffee'']\<rparr> ''/srv/repo'')]\<rparr>))"
proof -
  let ?w = "\<lparr>dirs = [''/srv/repo''], cwd = None, readonly = False\<rparr>"
  let ?lookup = "\<lambda>commitId. NewCommand [''cat-file'', ''-p'', commitId]"
  let ?parse = "\<lambda>commitId out :: string. (commitId @ out, None :: error option)"
  let ?repo = "\<lparr>Path = ''/srv/repo'', commitCache = Map.empty, tagCache = Map.empty\<rparr>
                 :: (string, unit) Repository"
  let ?repo1 = "\<lparr>Path = ''/srv/repo'', commitCache = [''c0ffee'' \<mapsto> ''c0ffee''], tagCache = Map.empty\<rparr>
                 :: (string, unit) Repository"
  let ?st = "\<lparr>world = ?w, events = []\<rparr>"
  let ?st1 = "\<lparr>world = ?w,
          events = [Run_event (Call_RunInDir \<lparr>cmd_args = [''cat-file'', ''-p'', ''c0ffee'']\<rparr> ''/srv/repo'')]\<rparr>"
  have opened: "OpenRepository fake_env ''/srv/repo'' ?w = (Some ?repo, None)"
    by (simp add: OpenRepository_def fake_env_def newObjectCache_def)
  have first: "GetCommit fake_env ?lookup ?parse ''c0ffee'' (?repo, ?st) = ((Some ''c0ffee'', None), (?repo1, ?st1))"
    by (simp add: GetCommit_def RunInDir_def exec_def fake_env_def NewCommand_def)
  have none: "GetCommits fake_env ?lookup ?parse [] (?repo1, ?st1) = (?repo1, ?st1)"
    by simp
  from second_request_served_from_cache [OF first none]
  have "GetCommit fake_env ?lookup ?parse ''c0ffee'' (?repo1, ?st1) = ((Some ''c0ffee'', None), (?repo1, ?st1))"
    by blast
  with opened first show ?thesis
    by (intro conjI)
qed

end
